theory Spec2Isabelle
  imports Main
begin

section \<open>Values and responses\<close>

text \<open>
  The service is an Express application: a handler receives the request, a response
  object \<open>res\<close> and the continuation \<open>next\<close>, and answers by writing one JSON
  document on \<open>res\<close>. A JSON document (a request body after \<open>express.json()\<close>, or a
  response body) is a value of \<open>json\<close>. The schema of the service never looks at the
  value of a number, only at its type, so numbers are integers here. An object keeps its
  members in the order in which the source writes them.
\<close>

datatype json =
    JNull
  | JBool bool
  | JNum int
  | JStr string
  | JArr "json list"
  | JObj "(string \<times> json) list"

text \<open>
  Of Express's response object the handlers use \<open>res.status(code)\<close>, which sets
  \<open>res.statusCode\<close> (the status of the HTTP response, 200 until it is set), and
  \<open>res.json(value)\<close>, which sends the value as the body. Express hands a handler a
  response on which nothing has been sent (\<open>fresh_response\<close>), and each path of each
  handler writes one body on it.
\<close>

record response =
  res_statusCode :: int
  res_body :: "json option"

definition fresh_response :: response where
  "fresh_response = \<lparr>res_statusCode = 200, res_body = None\<rparr>"

definition res_status :: "response \<Rightarrow> int \<Rightarrow> response" where
  "res_status res code = res\<lparr>res_statusCode := code\<rparr>"

definition res_json :: "response \<Rightarrow> json \<Rightarrow> response" where
  "res_json res v = res\<lparr>res_body := Some v\<rparr>"

text \<open>Reading a member of the body that was sent.\<close>

definition body_member :: "response \<Rightarrow> string \<Rightarrow> json option" where
  "body_member res k =
     (case res_body res of
        Some (JObj members) \<Rightarrow> map_of members k
      | _ \<Rightarrow> None)"

section \<open>The response formatter\<close>

text \<open>
  \<open>src/utils/responseHelper.ts\<close>, the module the handlers and the application
  import. The default arguments (\<open>message = "Success"\<close>, \<open>statusCode = 200\<close> for
  \<open>sendSuccess\<close>, \<open>statusCode = 400\<close> for \<open>sendError\<close>) are filled in at the call
  sites below. \<open>sendSuccess\<close> sets the status of the response and sends the
  envelope; \<open>sendError\<close> sends the envelope only.
\<close>

definition sendSuccess :: "response \<Rightarrow> json \<Rightarrow> string \<Rightarrow> int \<Rightarrow> response" where
  "sendSuccess res data message statusCode =
     res_json (res_status res statusCode)
       (JObj [(''status'', JStr ''success''),
              (''statusCode'', JNum statusCode),
              (''message'', JStr message),
              (''data'', data)])"

definition sendError :: "response \<Rightarrow> string \<Rightarrow> int \<Rightarrow> response" where
  "sendError res errorMessage statusCode =
     res_json res
       (JObj [(''statusCode'', JNum statusCode),
              (''status'', JStr ''error''),
              (''message'', JStr errorMessage)])"

text \<open>
  The repository holds a second copy of the module, which nothing modelled here
  imports: both of its functions set the status of the response, and neither writes
  the status code into the body.
\<close>

definition sendSuccess_copy :: "response \<Rightarrow> json \<Rightarrow> string \<Rightarrow> int \<Rightarrow> response" where
  "sendSuccess_copy res data message statusCode =
     res_json (res_status res statusCode)
       (JObj [(''status'', JStr ''success''),
              (''message'', JStr message),
              (''data'', data)])"

definition sendError_copy :: "response \<Rightarrow> string \<Rightarrow> int \<Rightarrow> response" where
  "sendError_copy res errorMessage statusCode =
     res_json (res_status res statusCode)
       (JObj [(''status'', JStr ''error''),
              (''message'', JStr errorMessage)])"

text \<open>
  The uniform envelope \<open>{status, statusCode, message, data?}\<close>: an object whose
  \<open>status\<close> is \<open>"success"\<close> or \<open>"error"\<close>, whose \<open>statusCode\<close> is a number, whose
  \<open>message\<close> is a string, and which has no member but these and \<open>data\<close>.
\<close>

definition is_envelope :: "json \<Rightarrow> bool" where
  "is_envelope v =
     (case v of
        JObj members \<Rightarrow>
          (map_of members ''status'' = Some (JStr ''success'') \<or>
           map_of members ''status'' = Some (JStr ''error'')) \<and>
          (case map_of members ''statusCode'' of Some (JNum _) \<Rightarrow> True | _ \<Rightarrow> False) \<and>
          (case map_of members ''message'' of Some (JStr _) \<Rightarrow> True | _ \<Rightarrow> False) \<and>
          list_all (\<lambda>k. k = ''status'' \<or> k = ''statusCode'' \<or> k = ''message'' \<or> k = ''data'')
            (map fst members)
      | _ \<Rightarrow> False)"

section \<open>Strings\<close>

text \<open>
  A character of the model is a code unit below U+0100, so the strings of the model are
  the JavaScript strings over Latin-1. \<open>String.prototype.trim\<close> removes white space
  and line terminators from both ends; the ones below U+0100 are U+0009 to U+000D,
  U+0020 and U+00A0. \<open>String.prototype.toLowerCase\<close> maps A to Z, and U+00C0 to
  U+00DE but for the multiplication sign U+00D7, to the character 32 places further on,
  and leaves every other character below U+0100 alone.
\<close>

definition isWhiteSpace :: "char \<Rightarrow> bool" where
  "isWhiteSpace c = ((of_char c :: nat) \<in> {9, 10, 11, 12, 13, 32, 160})"

definition trim :: "string \<Rightarrow> string" where
  "trim s = rev (dropWhile isWhiteSpace (rev (dropWhile isWhiteSpace s)))"

definition toLowerCase_char :: "char \<Rightarrow> char" where
  "toLowerCase_char c =
     (let n = of_char c :: nat
      in if (65 \<le> n \<and> n \<le> 90) \<or> (192 \<le> n \<and> n \<le> 222 \<and> n \<noteq> 215)
         then char_of (n + 32) else c)"

definition toLowerCase :: "string \<Rightarrow> string" where
  "toLowerCase s = map toLowerCase_char s"

text \<open>\<open>title.trim().toLowerCase()\<close>, the normalized title of \<open>createTask\<close>.\<close>

definition normalizeTitle :: "string \<Rightarrow> string" where
  "normalizeTitle title = toLowerCase (trim title)"

section \<open>The validation layer\<close>

text \<open>
  \<open>taskSchema\<close> is a zod object schema. A failed parse throws a \<open>ZodError\<close> with
  the list of issues; zod visits the members of the schema in the order in which the
  schema declares them (\<open>title\<close>, \<open>color\<close>, \<open>completed\<close>), so that is the order of
  the issues. An issue is modelled by its path and its message. The messages are those
  of zod's default error map: \<open>Required\<close> for a missing value, \<open>Expected T, received
  U\<close> for a value of another type.
\<close>

record issue =
  issue_path :: "string list"
  issue_message :: string

definition getParsedType :: "json option \<Rightarrow> string" where
  "getParsedType v =
     (case v of
        None \<Rightarrow> ''undefined''
      | Some JNull \<Rightarrow> ''null''
      | Some (JBool _) \<Rightarrow> ''boolean''
      | Some (JNum _) \<Rightarrow> ''number''
      | Some (JStr _) \<Rightarrow> ''string''
      | Some (JArr _) \<Rightarrow> ''array''
      | Some (JObj _) \<Rightarrow> ''object'')"

definition invalid_type :: "string list \<Rightarrow> string \<Rightarrow> json option \<Rightarrow> issue" where
  "invalid_type path expected v =
     \<lparr>issue_path = path,
      issue_message =
        (if v = None then ''Required''
         else ''Expected '' @ expected @ '', received '' @ getParsedType v)\<rparr>"

text \<open>\<open>z.string()\<close>, \<open>z.string().nonempty(message)\<close>, \<open>z.boolean()\<close>, \<open>.optional()\<close>.\<close>

definition z_string :: "string list \<Rightarrow> json option \<Rightarrow> issue + string" where
  "z_string path v =
     (case v of
        Some (JStr s) \<Rightarrow> Inr s
      | _ \<Rightarrow> Inl (invalid_type path ''string'' v))"

definition z_string_nonempty :: "string \<Rightarrow> string list \<Rightarrow> json option \<Rightarrow> issue + string" where
  "z_string_nonempty message path v =
     (case z_string path v of
        Inl i \<Rightarrow> Inl i
      | Inr s \<Rightarrow>
          if length s < 1 then Inl \<lparr>issue_path = path, issue_message = message\<rparr>
          else Inr s)"

definition z_boolean :: "string list \<Rightarrow> json option \<Rightarrow> issue + bool" where
  "z_boolean path v =
     (case v of
        Some (JBool b) \<Rightarrow> Inr b
      | _ \<Rightarrow> Inl (invalid_type path ''boolean'' v))"

definition z_optional ::
  "(string list \<Rightarrow> json option \<Rightarrow> issue + 'a) \<Rightarrow> string list \<Rightarrow> json option \<Rightarrow> issue + 'a option"
where
  "z_optional inner path v =
     (case v of
        None \<Rightarrow> Inr None
      | Some _ \<Rightarrow> (case inner path v of Inl i \<Rightarrow> Inl i | Inr x \<Rightarrow> Inr (Some x)))"

definition issues_of :: "issue + 'a \<Rightarrow> issue list" where
  "issues_of r = (case r of Inl i \<Rightarrow> [i] | Inr _ \<Rightarrow> [])"

text \<open>The value of \<open>taskSchema.parse\<close>, and of \<open>taskSchema.partial().parse\<close>.\<close>

record taskInput =
  input_title :: string
  input_color :: string
  input_completed :: "bool option"

record taskPatch =
  patch_title :: "string option"
  patch_color :: "string option"
  patch_completed :: "bool option"

definition taskSchema_parse :: "json \<Rightarrow> issue list + taskInput" where
  "taskSchema_parse body =
     (case body of
        JObj members \<Rightarrow>
          (let t = z_string_nonempty ''Title is required'' [''title''] (map_of members ''title'');
               c = z_string [''color''] (map_of members ''color'');
               d = z_optional z_boolean [''completed''] (map_of members ''completed'')
           in case (t, c, d) of
                (Inr title, Inr color, Inr completed) \<Rightarrow>
                  Inr \<lparr>input_title = title, input_color = color, input_completed = completed\<rparr>
              | _ \<Rightarrow> Inl (issues_of t @ issues_of c @ issues_of d))
      | _ \<Rightarrow> Inl [invalid_type [] ''object'' (Some body)])"

definition taskSchema_partial_parse :: "json \<Rightarrow> issue list + taskPatch" where
  "taskSchema_partial_parse body =
     (case body of
        JObj members \<Rightarrow>
          (let t = z_optional (z_string_nonempty ''Title is required'') [''title'']
                     (map_of members ''title'');
               c = z_optional z_string [''color''] (map_of members ''color'');
               d = z_optional z_boolean [''completed''] (map_of members ''completed'')
           in case (t, c, d) of
                (Inr title, Inr color, Inr completed) \<Rightarrow>
                  Inr \<lparr>patch_title = title, patch_color = color, patch_completed = completed\<rparr>
              | _ \<Rightarrow> Inl (issues_of t @ issues_of c @ issues_of d))
      | _ \<Rightarrow> Inl [invalid_type [] ''object'' (Some body)])"

section \<open>Errors\<close>

text \<open>
  What a handler can catch and what the error-handling middleware can receive. The
  middleware tells three kinds apart: an instance of \<open>CustomError\<close> (a message and a
  status code), an error with a \<open>code\<close> property (its code, the value of
  \<open>meta.target\<close> when \<open>meta\<close> and \<open>target\<close> are both there, its message), and any
  other error (its message). The middleware takes every error with a \<open>code\<close> property
  for a Prisma error, also one of Node or Express. The interface \<open>PrismaError\<close>
  declares \<open>target\<close> as a list of strings; the cast to it is not checked, so the value
  can also be a string, as the name of the violated index is. The handlers tell a
  \<open>ZodError\<close> apart first.
\<close>

datatype target =
    TargetList "string list"
  | TargetString string

datatype err =
    CustomError string int
  | CodedError string "target option" string
  | PlainError string

datatype thrown =
    ZodError "issue list"
  | Raised err

section \<open>The task store\<close>

text \<open>
  Modelled from the spec: the Prisma schema and the generated client are not among the
  sources. The store is the table of tasks and the counter from which the next
  identifier is taken. A task has the four fields of the data model; \<open>completed\<close>
  defaults to false; \<open>title\<close> has a unique constraint, compared character by
  character. \<open>create\<close> and \<open>update\<close> signal a violated unique constraint by an error of
  code P2002 (for \<open>update\<close>: the data write a title that another record holds),
  \<open>update\<close> and \<open>delete\<close> a missing record by one of code P2025; a failed operation
  leaves the store as it was.
\<close>

record task =
  task_id :: int
  task_title :: string
  task_color :: string
  task_completed :: bool

record store =
  tasks :: "task list"
  nextId :: int

definition findUnique_title :: "store \<Rightarrow> string \<Rightarrow> task option" where
  \<comment> \<open>Modelled from the spec: \<open>prisma.task.findUnique({where: {title}})\<close>.\<close>
  "findUnique_title s title = find (\<lambda>t. task_title t = title) (tasks s)"

definition findUnique_id :: "store \<Rightarrow> int \<Rightarrow> task option" where
  \<comment> \<open>Modelled from the spec: \<open>prisma.task.findUnique({where: {id}})\<close>.\<close>
  "findUnique_id s i = find (\<lambda>t. task_id t = i) (tasks s)"

definition P2002 :: err where
  \<comment> \<open>Modelled from the spec: the store's unique-constraint violation, on the title.\<close>
  "P2002 = CodedError ''P2002'' (Some (TargetList [''title''])) ''Unique constraint failed''"

definition P2025 :: err where
  \<comment> \<open>Modelled from the spec: the store's record-not-found signal.\<close>
  "P2025 = CodedError ''P2025'' None ''Record not found''"

definition prisma_create :: "store \<Rightarrow> string \<Rightarrow> string \<Rightarrow> err + (store \<times> task)" where
  \<comment> \<open>Modelled from the spec: \<open>prisma.task.create({data: {title, color}})\<close>.\<close>
  "prisma_create s title color =
     (if list_ex (\<lambda>t. task_title t = title) (tasks s) then Inl P2002
      else
        let newTask = \<lparr>task_id = nextId s, task_title = title, task_color = color,
                       task_completed = False\<rparr>
        in Inr (s\<lparr>tasks := tasks s @ [newTask], nextId := nextId s + 1\<rparr>, newTask))"

definition apply_patch :: "taskPatch \<Rightarrow> task \<Rightarrow> task" where
  \<comment> \<open>Modelled from the spec: an update writes the fields that the data give.\<close>
  "apply_patch d t =
     t\<lparr>task_title := (case patch_title d of None \<Rightarrow> task_title t | Some x \<Rightarrow> x),
       task_color := (case patch_color d of None \<Rightarrow> task_color t | Some x \<Rightarrow> x),
       task_completed := (case patch_completed d of None \<Rightarrow> task_completed t | Some x \<Rightarrow> x)\<rparr>"

definition prisma_update :: "store \<Rightarrow> int \<Rightarrow> taskPatch \<Rightarrow> err + (store \<times> task)" where
  \<comment> \<open>Modelled from the spec: \<open>prisma.task.update({where: {id}, data})\<close>.\<close>
  "prisma_update s i d =
     (case findUnique_id s i of
        None \<Rightarrow> Inl P2025
      | Some old \<Rightarrow>
          let updatedTask = apply_patch d old;
              taken = (case patch_title d of
                         None \<Rightarrow> False
                       | Some x \<Rightarrow> list_ex (\<lambda>t. task_id t \<noteq> i \<and> task_title t = x) (tasks s))
          in if taken then Inl P2002
             else Inr (s\<lparr>tasks := map (\<lambda>t. if task_id t = i then apply_patch d t else t) (tasks s)\<rparr>,
                       updatedTask))"

definition prisma_delete :: "store \<Rightarrow> int \<Rightarrow> err + store" where
  \<comment> \<open>Modelled from the spec: \<open>prisma.task.delete({where: {id}})\<close>.\<close>
  "prisma_delete s i =
     (case findUnique_id s i of
        None \<Rightarrow> Inl P2025
      | Some _ \<Rightarrow> Inr (s\<lparr>tasks := filter (\<lambda>t. task_id t \<noteq> i) (tasks s)\<rparr>))"

text \<open>A task as the JSON document that \<open>res.json\<close> sends.\<close>

definition task_json :: "task \<Rightarrow> json" where
  "task_json t =
     JObj [(''id'', JNum (task_id t)),
           (''title'', JStr (task_title t)),
           (''color'', JStr (task_color t)),
           (''completed'', JBool (task_completed t))]"

section \<open>The entity handlers\<close>

text \<open>
  \<open>src/controllers/taskController.ts\<close>. A handler is the body of its \<open>try\<close>, which
  ends with a response or with a thrown error, and its \<open>catch\<close>, which turns the error
  into a response. It takes the store, the request (the body, and for update and
  delete the identifier \<open>Number(id)\<close> of the route, an integer) and the response
  object, and returns the store and the response. The calls of the logger, and the call
  of \<open>next\<close> that follows a response already sent, change neither and are left out.
  \<open>error.errors[0].message\<close> on an empty list of issues would raise inside the
  \<open>catch\<close>, and nothing would be sent.
\<close>

definition createTask_try :: "store \<Rightarrow> json \<Rightarrow> response \<Rightarrow> thrown + (store \<times> response)" where
  "createTask_try s body res =
     (case taskSchema_parse body of
        Inl issues \<Rightarrow> Inl (ZodError issues)
      | Inr parsed \<Rightarrow>
          let title = input_title parsed;
              color = input_color parsed;
              normalizedTitle = toLowerCase (trim title)
          in case findUnique_title s normalizedTitle of
               Some existingTask \<Rightarrow>
                 Inr (s, sendError res
                   ''A task with this title already exists. Please use a unique title'' 400)
             | None \<Rightarrow>
                 (case prisma_create s normalizedTitle color of
                    Inl e \<Rightarrow> Inl (Raised e)
                  | Inr (s', newTask) \<Rightarrow>
                      Inr (s', sendSuccess res (task_json newTask)
                        ''Task created successfully'' 201)))"

definition createTask_catch :: "thrown \<Rightarrow> response \<Rightarrow> response" where
  "createTask_catch error res =
     (case error of
        ZodError issues \<Rightarrow>
          (case issues of
             [] \<Rightarrow> res
           | i # _ \<Rightarrow> sendError res (issue_message i) 400)
      | Raised (CodedError code target message) \<Rightarrow>
          if code = ''P2002''
          then sendError res
                 ''A task with this title already exists. Please use a unique title.'' 400
          else sendError res ''Failed to create task'' 500
      | Raised _ \<Rightarrow> sendError res ''Failed to create task'' 500)"

definition createTask :: "store \<Rightarrow> json \<Rightarrow> response \<Rightarrow> store \<times> response" where
  "createTask s body res =
     (case createTask_try s body res of
        Inr r \<Rightarrow> r
      | Inl error \<Rightarrow> (s, createTask_catch error res))"

definition updateTask_try ::
  "store \<Rightarrow> int \<Rightarrow> json \<Rightarrow> response \<Rightarrow> thrown + (store \<times> response)"
where
  "updateTask_try s i body res =
     (case findUnique_id s i of
        None \<Rightarrow> Inr (s, sendError res ''Task not found'' 404)
      | Some existingTask \<Rightarrow>
          (case taskSchema_partial_parse body of
             Inl issues \<Rightarrow> Inl (ZodError issues)
           | Inr validatedData \<Rightarrow>
               (case prisma_update s i validatedData of
                  Inl e \<Rightarrow> Inl (Raised e)
                | Inr (s', updatedTask) \<Rightarrow>
                    Inr (s', sendSuccess res (task_json updatedTask)
                      ''Task updated successfully'' 200))))"

definition updateTask_catch :: "thrown \<Rightarrow> response \<Rightarrow> response" where
  "updateTask_catch error res =
     (case error of
        ZodError issues \<Rightarrow>
          (case issues of
             [] \<Rightarrow> res
           | i # _ \<Rightarrow> sendError res (issue_message i) 400)
      | Raised _ \<Rightarrow> sendError res ''Failed to update task'' 500)"

definition updateTask :: "store \<Rightarrow> int \<Rightarrow> json \<Rightarrow> response \<Rightarrow> store \<times> response" where
  "updateTask s i body res =
     (case updateTask_try s i body res of
        Inr r \<Rightarrow> r
      | Inl error \<Rightarrow> (s, updateTask_catch error res))"

definition deleteTask_try :: "store \<Rightarrow> int \<Rightarrow> response \<Rightarrow> thrown + (store \<times> response)" where
  "deleteTask_try s i res =
     (case findUnique_id s i of
        None \<Rightarrow> Inr (s, sendError res ''Task not found'' 404)
      | Some existingTask \<Rightarrow>
          (case prisma_delete s i of
             Inl e \<Rightarrow> Inl (Raised e)
           | Inr s' \<Rightarrow> Inr (s', sendSuccess res JNull ''Task deleted successfully'' 200)))"

definition deleteTask_catch :: "thrown \<Rightarrow> response \<Rightarrow> response" where
  "deleteTask_catch error res = sendError res ''Failed to delete task'' 500"

definition deleteTask :: "store \<Rightarrow> int \<Rightarrow> response \<Rightarrow> store \<times> response" where
  "deleteTask s i res =
     (case deleteTask_try s i res of
        Inr r \<Rightarrow> r
      | Inl error \<Rightarrow> (s, deleteTask_catch error res))"

section \<open>The error translator\<close>




section \<open>The invariant of the data model\<close>

text \<open>
  Every stored title is its own normalization, and no two stored tasks have the same
  normalized title.
\<close>

definition titles_normalized :: "store \<Rightarrow> bool" where
  "titles_normalized s = list_all (\<lambda>t. normalizeTitle (task_title t) = task_title t) (tasks s)"

definition titles_unique :: "store \<Rightarrow> bool" where
  "titles_unique s = distinct (map (\<lambda>t. normalizeTitle (task_title t)) (tasks s))"

definition store_invariant :: "store \<Rightarrow> bool" where
  "store_invariant s = (titles_normalized s \<and> titles_unique s)"

section \<open>Properties of the response formatter\<close>

lemma sendSuccess_status:
  "res_statusCode (sendSuccess res data message statusCode) = statusCode"
  by (simp add: sendSuccess_def res_json_def res_status_def)

lemma sendSuccess_body:
  "body_member (sendSuccess res data message statusCode) ''statusCode'' = Some (JNum statusCode)"
  "body_member (sendSuccess res data message statusCode) ''status'' = Some (JStr ''success'')"
  "body_member (sendSuccess res data message statusCode) ''message'' = Some (JStr message)"
  "body_member (sendSuccess res data message statusCode) ''data'' = Some data"
  by (simp_all add: sendSuccess_def res_json_def res_status_def body_member_def)

lemma sendSuccess_envelope:
  "\<exists>v. res_body (sendSuccess res data message statusCode) = Some v \<and> is_envelope v"
  by (simp add: sendSuccess_def res_json_def res_status_def is_envelope_def)

lemma sendError_body:
  "body_member (sendError res errorMessage statusCode) ''statusCode'' = Some (JNum statusCode)"
  "body_member (sendError res errorMessage statusCode) ''status'' = Some (JStr ''error'')"
  "body_member (sendError res errorMessage statusCode) ''message'' = Some (JStr errorMessage)"
  "body_member (sendError res errorMessage statusCode) ''data'' = None"
  by (simp_all add: sendError_def res_json_def body_member_def)

lemma sendError_envelope:
  "\<exists>v. res_body (sendError res errorMessage statusCode) = Some v \<and> is_envelope v"
  by (simp add: sendError_def res_json_def is_envelope_def)

text \<open>\<open>sendError\<close> leaves the status of the response as it found it.\<close>

lemma sendError_status:
  "res_statusCode (sendError res errorMessage statusCode) = res_statusCode res"
  by (simp add: sendError_def res_json_def)

lemma sendError_copy_no_statusCode:
  "res_statusCode (sendError_copy res errorMessage statusCode) = statusCode"
  "body_member (sendError_copy res errorMessage statusCode) ''statusCode'' = None"
  by (simp_all add: sendError_copy_def res_json_def res_status_def body_member_def)

lemma sendSuccess_copy_no_statusCode:
  "res_statusCode (sendSuccess_copy res data message statusCode) = statusCode"
  "body_member (sendSuccess_copy res data message statusCode) ''statusCode'' = None"
  by (simp_all add: sendSuccess_copy_def res_json_def res_status_def body_member_def)

text \<open>
  C1. The claim: every response of the formatter carries its status code in the body
  and as the status of the HTTP response, in particular for every call of \<open>sendError\<close>.
  What the code does at \<open>sendError(res, "Task not found", 404)\<close> on a response whose
  status was not set before: the body carries 404 and is an envelope, and the status of
  the HTTP response is still 200.
\<close>

theorem sendError_transport_status_unset:
  "res_statusCode (sendError fresh_response ''Task not found'' 404) = 200 \<and>
   res_statusCode (sendError fresh_response ''Task not found'' 404) \<noteq> 404 \<and>
   body_member (sendError fresh_response ''Task not found'' 404) ''statusCode'' = Some (JNum 404) \<and>
   res_statusCode (sendSuccess fresh_response JNull ''Task deleted successfully'' 200) = 200 \<and>
   res_statusCode (sendSuccess fresh_response JNull ''Task created successfully'' 201) = 201"
  by (simp add: sendError_def sendSuccess_def res_json_def res_status_def body_member_def
      fresh_response_def)

section \<open>Normalization\<close>

lemma isWhiteSpace_toLowerCase_char: "isWhiteSpace (toLowerCase_char c) = isWhiteSpace c"
  by (auto simp: isWhiteSpace_def toLowerCase_char_def Let_def)

lemma toLowerCase_char_idem: "toLowerCase_char (toLowerCase_char c) = toLowerCase_char c"
  by (auto simp: toLowerCase_char_def Let_def)

lemma toLowerCase_idem: "toLowerCase (toLowerCase s) = toLowerCase s"
  by (simp add: toLowerCase_def toLowerCase_char_idem)

lemma trim_toLowerCase: "trim (toLowerCase s) = toLowerCase (trim s)"
proof -
  have comp: "isWhiteSpace \<circ> toLowerCase_char = isWhiteSpace"
    by (rule ext) (simp add: isWhiteSpace_toLowerCase_char)
  show ?thesis
    by (simp add: trim_def toLowerCase_def dropWhile_map rev_map comp)
qed

text \<open>Dropping at the end of a list keeps a first element that was not to be dropped.\<close>

lemma dropWhile_front_kept:
  assumes "dropWhile P xs = xs"
  shows "dropWhile P (rev (dropWhile P (rev xs))) = rev (dropWhile P (rev xs))"
proof (cases "rev (dropWhile P (rev xs))")
  case Nil
  show ?thesis unfolding Nil by simp
next
  case (Cons y ys)
  have "rev xs = takeWhile P (rev xs) @ dropWhile P (rev xs)" by simp
  then have "xs = rev (dropWhile P (rev xs)) @ rev (takeWhile P (rev xs))"
    by (metis rev_append rev_rev_ident)
  with Cons obtain zs where xs: "xs = y # zs" by (metis append_Cons)
  with assms have "\<not> P y" by (metis dropWhile_eq_Cons_conv)
  show ?thesis unfolding Cons using \<open>\<not> P y\<close> by simp
qed

lemma trim_idem: "trim (trim s) = trim s"
proof -
  have "dropWhile isWhiteSpace (dropWhile isWhiteSpace s) = dropWhile isWhiteSpace s"
    by (rule dropWhile_idem)
  from dropWhile_front_kept [OF this] show ?thesis
    by (simp add: trim_def)
qed

lemma normalizeTitle_idem: "normalizeTitle (normalizeTitle s) = normalizeTitle s"
  by (simp add: normalizeTitle_def trim_toLowerCase trim_idem toLowerCase_idem)

section \<open>The paths of the handlers\<close>

lemma find_None_list_ex: "find P xs = None \<longleftrightarrow> \<not> list_ex P xs"
  by (auto simp: find_None_iff list_ex_iff)

text \<open>A failed parse has at least one issue, so \<open>errors[0]\<close> is there.\<close>

lemma taskSchema_parse_issues_nonempty:
  "taskSchema_parse body = Inl issues \<Longrightarrow> issues \<noteq> []"
  by (auto simp: taskSchema_parse_def issues_of_def Let_def split: json.splits sum.splits)

lemma taskSchema_partial_parse_issues_nonempty:
  "taskSchema_partial_parse body = Inl issues \<Longrightarrow> issues \<noteq> []"
  by (auto simp: taskSchema_partial_parse_def issues_of_def Let_def split: json.splits sum.splits)

lemma taskSchema_parse_empty_title:
  "map_of members ''title'' = Some (JStr []) \<Longrightarrow>
     \<exists>rest. taskSchema_parse (JObj members) =
       Inl (\<lparr>issue_path = [''title''], issue_message = ''Title is required''\<rparr> # rest)"
  by (auto simp: taskSchema_parse_def issues_of_def Let_def z_string_nonempty_def z_string_def
      split: sum.splits)

lemma taskSchema_partial_parse_no_members:
  "map_of members ''title'' = None \<Longrightarrow> map_of members ''color'' = None \<Longrightarrow>
   map_of members ''completed'' = None \<Longrightarrow>
     taskSchema_partial_parse (JObj members) =
       Inr \<lparr>patch_title = None, patch_color = None, patch_completed = None\<rparr>"
  by (simp add: taskSchema_partial_parse_def z_optional_def)

lemma createTask_invalid:
  assumes "taskSchema_parse body = Inl (i # rest)"
  shows "createTask s body res = (s, sendError res (issue_message i) 400)"
  using assms by (simp add: createTask_def createTask_try_def createTask_catch_def)

lemma createTask_found:
  assumes "taskSchema_parse body = Inr parsed"
    and "findUnique_title s (normalizeTitle (input_title parsed)) = Some t"
  shows "createTask s body res =
     (s, sendError res ''A task with this title already exists. Please use a unique title'' 400)"
  using assms by (simp add: createTask_def createTask_try_def normalizeTitle_def Let_def)

lemma createTask_not_found:
  assumes "taskSchema_parse body = Inr parsed"
    and "findUnique_title s (normalizeTitle (input_title parsed)) = None"
  shows "createTask s body res =
     (s\<lparr>tasks := tasks s @
          [\<lparr>task_id = nextId s, task_title = normalizeTitle (input_title parsed),
            task_color = input_color parsed, task_completed = False\<rparr>],
        nextId := nextId s + 1\<rparr>,
      sendSuccess res
        (task_json \<lparr>task_id = nextId s, task_title = normalizeTitle (input_title parsed),
            task_color = input_color parsed, task_completed = False\<rparr>)
        ''Task created successfully'' 201)"
proof -
  from assms(2)
  have "\<not> list_ex (\<lambda>t. task_title t = normalizeTitle (input_title parsed)) (tasks s)"
    by (simp add: findUnique_title_def find_None_list_ex)
  then have "prisma_create s (normalizeTitle (input_title parsed)) (input_color parsed) =
     Inr (s\<lparr>tasks := tasks s @
          [\<lparr>task_id = nextId s, task_title = normalizeTitle (input_title parsed),
            task_color = input_color parsed, task_completed = False\<rparr>],
        nextId := nextId s + 1\<rparr>,
        \<lparr>task_id = nextId s, task_title = normalizeTitle (input_title parsed),
            task_color = input_color parsed, task_completed = False\<rparr>)"
    by (simp add: prisma_create_def Let_def)
  with assms show ?thesis
    by (simp add: createTask_def createTask_try_def normalizeTitle_def Let_def)
qed

lemma updateTask_missing:
  "findUnique_id s i = None \<Longrightarrow>
     updateTask s i body res = (s, sendError res ''Task not found'' 404)"
  by (simp add: updateTask_def updateTask_try_def)

lemma deleteTask_missing:
  "findUnique_id s i = None \<Longrightarrow> deleteTask s i res = (s, sendError res ''Task not found'' 404)"
  by (simp add: deleteTask_def deleteTask_try_def)

lemma apply_patch_empty:
  "apply_patch \<lparr>patch_title = None, patch_color = None, patch_completed = None\<rparr> t = t"
  by (simp add: apply_patch_def)

lemma map_apply_patch_empty:
  "map (\<lambda>t. if P t
            then apply_patch \<lparr>patch_title = None, patch_color = None, patch_completed = None\<rparr> t
            else t) xs = xs"
  by (induction xs) (simp_all add: apply_patch_empty)

lemma updateTask_collision:
  assumes "findUnique_id s i = Some old"
    and "taskSchema_partial_parse body = Inr d"
    and "patch_title d = Some x"
    and "list_ex (\<lambda>t. task_id t \<noteq> i \<and> task_title t = x) (tasks s)"
  shows "updateTask_try s i body res = Inl (Raised P2002)"
    and "updateTask s i body res = (s, sendError res ''Failed to update task'' 500)"
  using assms
  by (simp_all add: updateTask_def updateTask_try_def updateTask_catch_def prisma_update_def
      Let_def)

section \<open>Titles in the store\<close>

text \<open>
  \<open>createTask\<close> keeps the invariant of the data model: what it stores is a normalized
  title that no stored task has.
\<close>

lemma createTask_preserves_invariant:
  assumes "store_invariant s"
  shows "store_invariant (fst (createTask s body res))"
proof (cases "taskSchema_parse body")
  case (Inl issues)
  then obtain i rest where "issues = i # rest"
    using taskSchema_parse_issues_nonempty by (cases issues) auto
  with Inl assms show ?thesis by (simp add: createTask_invalid)
next
  case (Inr parsed)
  show ?thesis
  proof (cases "findUnique_title s (normalizeTitle (input_title parsed))")
    case (Some t)
    with Inr assms show ?thesis by (simp add: createTask_found)
  next
    case None
    then have fresh: "\<forall>t \<in> set (tasks s). task_title t \<noteq> normalizeTitle (input_title parsed)"
      by (auto simp: findUnique_title_def find_None_iff)
    from assms have norm: "\<forall>t \<in> set (tasks s). normalizeTitle (task_title t) = task_title t"
      by (simp add: store_invariant_def titles_normalized_def list_all_iff)
    from fresh norm
    have "normalizeTitle (input_title parsed) \<notin> (\<lambda>t. normalizeTitle (task_title t)) ` set (tasks s)"
      by auto
    with assms Inr None show ?thesis
      by (simp add: createTask_not_found store_invariant_def titles_normalized_def
          titles_unique_def normalizeTitle_idem)
  qed
qed

text \<open>
  C2. The claim: every stored title is normalized and no two stored tasks share a
  normalized title, and both \<open>createTask\<close> and \<open>updateTask\<close> keep it so.
  \<open>createTask\<close> does (\<open>createTask_preserves_invariant\<close>). \<open>updateTask\<close> hands the
  validated data to the store as they are: on a store with the tasks \<open>learn prisma\<close>
  and \<open>write tests\<close>, which satisfies the invariant, the update of task 2 with the title
  \<open>" Learn PRISMA "\<close> succeeds and stores that title unchanged, a title that is not
  normalized and whose normalization is the title of task 1.
\<close>

theorem updateTask_stores_raw_title:
  "store_invariant
     \<lparr>tasks = [\<lparr>task_id = 1, task_title = ''learn prisma'', task_color = ''blue'',
                 task_completed = False\<rparr>,
               \<lparr>task_id = 2, task_title = ''write tests'', task_color = ''red'',
                 task_completed = False\<rparr>],
       nextId = 3\<rparr> \<and>
   updateTask
     \<lparr>tasks = [\<lparr>task_id = 1, task_title = ''learn prisma'', task_color = ''blue'',
                 task_completed = False\<rparr>,
               \<lparr>task_id = 2, task_title = ''write tests'', task_color = ''red'',
                 task_completed = False\<rparr>],
       nextId = 3\<rparr>
     2 (JObj [(''title'', JStr '' Learn PRISMA '')]) fresh_response =
   (\<lparr>tasks = [\<lparr>task_id = 1, task_title = ''learn prisma'', task_color = ''blue'',
                 task_completed = False\<rparr>,
               \<lparr>task_id = 2, task_title = '' Learn PRISMA '', task_color = ''red'',
                 task_completed = False\<rparr>],
       nextId = 3\<rparr>,
    sendSuccess fresh_response
      (task_json \<lparr>task_id = 2, task_title = '' Learn PRISMA '', task_color = ''red'',
                 task_completed = False\<rparr>)
      ''Task updated successfully'' 200) \<and>
   \<not> titles_normalized
     \<lparr>tasks = [\<lparr>task_id = 1, task_title = ''learn prisma'', task_color = ''blue'',
                 task_completed = False\<rparr>,
               \<lparr>task_id = 2, task_title = '' Learn PRISMA '', task_color = ''red'',
                 task_completed = False\<rparr>],
       nextId = 3\<rparr> \<and>
   \<not> titles_unique
     \<lparr>tasks = [\<lparr>task_id = 1, task_title = ''learn prisma'', task_color = ''blue'',
                 task_completed = False\<rparr>,
               \<lparr>task_id = 2, task_title = '' Learn PRISMA '', task_color = ''red'',
                 task_completed = False\<rparr>],
       nextId = 3\<rparr>"
  by code_simp

section \<open>Missing identifiers\<close>

text \<open>
  C3. The claim: an update or a delete whose identifier matches no stored task is
  answered with 404 and the message \<open>Task not found\<close>, whatever the body. Both
  handlers look the identifier up first and answer through \<open>sendError\<close> with that
  message and the code 404 (\<open>updateTask_missing\<close>, \<open>deleteTask_missing\<close>), and the
  store is unchanged. What the client gets for the identifier 7, which no stored task
  has, and a body that the schema rejects: the envelope carries 404 and the message, and
  the status of the HTTP response is 200, since \<open>sendError\<close> does not set it.
\<close>

theorem missing_id_answered_with_status_200:
  "updateTask
     \<lparr>tasks = [\<lparr>task_id = 1, task_title = ''learn prisma'', task_color = ''blue'',
                 task_completed = False\<rparr>], nextId = 2\<rparr>
     7 (JObj [(''title'', JStr [])]) fresh_response =
   (\<lparr>tasks = [\<lparr>task_id = 1, task_title = ''learn prisma'', task_color = ''blue'',
                 task_completed = False\<rparr>], nextId = 2\<rparr>,
    \<lparr>res_statusCode = 200,
     res_body = Some (JObj [(''statusCode'', JNum 404), (''status'', JStr ''error''),
                            (''message'', JStr ''Task not found'')])\<rparr>) \<and>
   deleteTask
     \<lparr>tasks = [\<lparr>task_id = 1, task_title = ''learn prisma'', task_color = ''blue'',
                 task_completed = False\<rparr>], nextId = 2\<rparr>
     7 fresh_response =
   (\<lparr>tasks = [\<lparr>task_id = 1, task_title = ''learn prisma'', task_color = ''blue'',
                 task_completed = False\<rparr>], nextId = 2\<rparr>,
    \<lparr>res_statusCode = 200,
     res_body = Some (JObj [(''statusCode'', JNum 404), (''status'', JStr ''error''),
                            (''message'', JStr ''Task not found'')])\<rparr>) \<and>
   res_statusCode (snd (updateTask
     \<lparr>tasks = [\<lparr>task_id = 1, task_title = ''learn prisma'', task_color = ''blue'',
                 task_completed = False\<rparr>], nextId = 2\<rparr>
     7 (JObj [(''title'', JStr [])]) fresh_response)) \<noteq> 404 \<and>
   res_statusCode (snd (deleteTask
     \<lparr>tasks = [\<lparr>task_id = 1, task_title = ''learn prisma'', task_color = ''blue'',
                 task_completed = False\<rparr>], nextId = 2\<rparr>
     7 fresh_response)) \<noteq> 404"
  by (simp add: updateTask_def updateTask_try_def deleteTask_def deleteTask_try_def
      findUnique_id_def sendError_def res_json_def fresh_response_def)

section \<open>Creating a task\<close>

text \<open>
  On a store whose titles are normalized, \<open>createTask\<close> decides as the data model
  says: a body that the schema accepts is refused as a duplicate exactly when its
  normalized title is the normalized title of a stored task, and is stored otherwise.
\<close>

lemma createTask_on_normalized_store:
  assumes "taskSchema_parse body = Inr parsed"
    and "titles_normalized s"
  shows "createTask s body res =
     (if list_ex (\<lambda>t. normalizeTitle (task_title t) = normalizeTitle (input_title parsed)) (tasks s)
      then (s, sendError res
              ''A task with this title already exists. Please use a unique title'' 400)
      else (s\<lparr>tasks := tasks s @
                [\<lparr>task_id = nextId s, task_title = normalizeTitle (input_title parsed),
                  task_color = input_color parsed, task_completed = False\<rparr>],
              nextId := nextId s + 1\<rparr>,
            sendSuccess res
              (task_json \<lparr>task_id = nextId s, task_title = normalizeTitle (input_title parsed),
                  task_color = input_color parsed, task_completed = False\<rparr>)
              ''Task created successfully'' 201))"
proof -
  from assms(2)
  have "list_ex (\<lambda>t. normalizeTitle (task_title t) = normalizeTitle (input_title parsed)) (tasks s)
        = list_ex (\<lambda>t. task_title t = normalizeTitle (input_title parsed)) (tasks s)"
    by (auto simp: titles_normalized_def list_all_iff list_ex_iff)
  also have "\<dots> = (findUnique_title s (normalizeTitle (input_title parsed)) \<noteq> None)"
    by (simp add: findUnique_title_def find_None_list_ex)
  finally show ?thesis
    using assms(1) by (auto simp: createTask_found createTask_not_found)
qed

text \<open>
  C4. The claim: a create request whose normalized title is the normalized title of a
  stored task fails with a 400 duplicate error and stores nothing, and any other is
  stored and returned with status 201. What the code does at two requests. The
  first: the store holds \<open>learn prisma\<close> and the request has the title
  \<open>"  LEARN Prisma "\<close>; nothing is stored and the envelope carries 400 and the
  duplicate message, and the status of the HTTP response is 200, since \<open>sendError\<close>
  does not set it. The second: the store is the one that the handlers reach from the
  tasks \<open>learn prisma\<close> and \<open>write tests\<close> by the update of task 2 to the title
  \<open>" Learn PRISMA "\<close>, which \<open>updateTask\<close> stores as it is, and the delete of task 1;
  the request with the title \<open>learn prisma\<close>, whose normalization is that of the stored
  title, is stored and answered with 201.
\<close>

theorem createTask_duplicate_failures:
  "createTask
     \<lparr>tasks = [\<lparr>task_id = 1, task_title = ''learn prisma'', task_color = ''blue'',
                 task_completed = False\<rparr>], nextId = 2\<rparr>
     (JObj [(''title'', JStr ''  LEARN Prisma ''), (''color'', JStr ''red'')]) fresh_response =
   (\<lparr>tasks = [\<lparr>task_id = 1, task_title = ''learn prisma'', task_color = ''blue'',
                 task_completed = False\<rparr>], nextId = 2\<rparr>,
    \<lparr>res_statusCode = 200,
     res_body = Some (JObj [(''statusCode'', JNum 400), (''status'', JStr ''error''),
       (''message'',
        JStr ''A task with this title already exists. Please use a unique title'')])\<rparr>) \<and>
   fst (deleteTask
     (fst (updateTask
        \<lparr>tasks = [\<lparr>task_id = 1, task_title = ''learn prisma'', task_color = ''blue'',
                    task_completed = False\<rparr>,
                  \<lparr>task_id = 2, task_title = ''write tests'', task_color = ''red'',
                    task_completed = False\<rparr>],
          nextId = 3\<rparr>
        2 (JObj [(''title'', JStr '' Learn PRISMA '')]) fresh_response))
     1 fresh_response) =
   \<lparr>tasks = [\<lparr>task_id = 2, task_title = '' Learn PRISMA '', task_color = ''red'',
                task_completed = False\<rparr>], nextId = 3\<rparr> \<and>
   normalizeTitle ''learn prisma'' = normalizeTitle '' Learn PRISMA '' \<and>
   createTask
     \<lparr>tasks = [\<lparr>task_id = 2, task_title = '' Learn PRISMA '', task_color = ''red'',
                 task_completed = False\<rparr>], nextId = 3\<rparr>
     (JObj [(''title'', JStr ''learn prisma''), (''color'', JStr ''blue'')]) fresh_response =
   (\<lparr>tasks = [\<lparr>task_id = 2, task_title = '' Learn PRISMA '', task_color = ''red'',
                 task_completed = False\<rparr>,
               \<lparr>task_id = 3, task_title = ''learn prisma'', task_color = ''blue'',
                 task_completed = False\<rparr>], nextId = 4\<rparr>,
    \<lparr>res_statusCode = 201,
     res_body = Some (JObj [(''status'', JStr ''success''), (''statusCode'', JNum 201),
       (''message'', JStr ''Task created successfully''),
       (''data'', JObj [(''id'', JNum 3), (''title'', JStr ''learn prisma''),
                        (''color'', JStr ''blue''), (''completed'', JBool False)])])\<rparr>)"
  by code_simp

text \<open>
  C5. The claim: a create request whose body the schema rejects is answered with 400
  and the message of the first violated field, \<open>Title is required\<close> for an empty
  title, and nothing is stored. \<open>createTask\<close> answers a failed parse through
  \<open>sendError\<close> with the message of the first issue and the code 400, and leaves the
  store alone (\<open>createTask_invalid\<close>). What the client gets for a body with an empty
  title and a color that is a number: the envelope carries 400 and the message of the
  title, the first of the two issues, and the status of the HTTP response is 200, since
  \<open>sendError\<close> does not set it.
\<close>

theorem createTask_validation_failure_status_200:
  "createTask \<lparr>tasks = [], nextId = 1\<rparr>
     (JObj [(''title'', JStr []), (''color'', JNum 3)]) fresh_response =
   (\<lparr>tasks = [], nextId = 1\<rparr>,
    \<lparr>res_statusCode = 200,
     res_body = Some (JObj [(''statusCode'', JNum 400), (''status'', JStr ''error''),
                            (''message'', JStr ''Title is required'')])\<rparr>) \<and>
   taskSchema_parse (JObj [(''title'', JStr []), (''color'', JNum 3)]) =
     Inl [\<lparr>issue_path = [''title''], issue_message = ''Title is required''\<rparr>,
          \<lparr>issue_path = [''color''], issue_message = ''Expected string, received number''\<rparr>] \<and>
   res_statusCode (snd (createTask \<lparr>tasks = [], nextId = 1\<rparr>
     (JObj [(''title'', JStr []), (''color'', JNum 3)]) fresh_response)) \<noteq> 400"
  by code_simp

text \<open>
  C9. \<open>createTask\<close> takes only the title and the color from the parsed body. For every
  body the schema accepts, whatever its \<open>completed\<close> member, and no stored task with
  the normalized title, the record that is stored and returned has the normalized
  title, the color and \<open>completed\<close> false, the default of the store.
\<close>

theorem createTask_completed_default:
  assumes "taskSchema_parse body = Inr parsed"
    and "findUnique_title s (normalizeTitle (input_title parsed)) = None"
  shows "createTask s body res =
     (s\<lparr>tasks := tasks s @
          [\<lparr>task_id = nextId s, task_title = normalizeTitle (input_title parsed),
            task_color = input_color parsed, task_completed = False\<rparr>],
        nextId := nextId s + 1\<rparr>,
      sendSuccess res
        (task_json \<lparr>task_id = nextId s, task_title = normalizeTitle (input_title parsed),
            task_color = input_color parsed, task_completed = False\<rparr>)
        ''Task created successfully'' 201) \<and>
     task_completed (last (tasks (fst (createTask s body res)))) = False"
  using assms by (simp add: createTask_not_found)

theorem createTask_completed_default_witness:
  "taskSchema_parse
     (JObj [(''title'', JStr ''Build Todo App''), (''color'', JStr ''green''),
            (''completed'', JBool True)]) =
     Inr \<lparr>input_title = ''Build Todo App'', input_color = ''green'',
          input_completed = Some True\<rparr> \<and>
   createTask \<lparr>tasks = [], nextId = 1\<rparr>
     (JObj [(''title'', JStr ''Build Todo App''), (''color'', JStr ''green''),
            (''completed'', JBool True)]) fresh_response =
   (\<lparr>tasks = [\<lparr>task_id = 1, task_title = ''build todo app'', task_color = ''green'',
                 task_completed = False\<rparr>], nextId = 2\<rparr>,
    sendSuccess fresh_response
      (task_json \<lparr>task_id = 1, task_title = ''build todo app'', task_color = ''green'',
                 task_completed = False\<rparr>)
      ''Task created successfully'' 201)"
proof -
  have p: "taskSchema_parse
     (JObj [(''title'', JStr ''Build Todo App''), (''color'', JStr ''green''),
            (''completed'', JBool True)]) =
     Inr \<lparr>input_title = ''Build Todo App'', input_color = ''green'',
          input_completed = Some True\<rparr>"
    by code_simp
  have n: "normalizeTitle ''Build Todo App'' = ''build todo app''" by code_simp
  have f: "findUnique_title \<lparr>tasks = [], nextId = 1\<rparr>
     (normalizeTitle (input_title \<lparr>input_title = ''Build Todo App'', input_color = ''green'',
          input_completed = Some True\<rparr>)) = None"
    by (simp add: findUnique_title_def)
  from createTask_completed_default [OF p f, of fresh_response] p
  show ?thesis by (simp add: n)
qed

section \<open>Updating a task\<close>

text \<open>
  C7. An update of a stored task whose body parses to no field at all, as an object
  with none of the members \<open>title\<close>, \<open>color\<close>, \<open>completed\<close> does
  (\<open>taskSchema_partial_parse_no_members\<close>), returns the task with status 200 and
  leaves the store, and so every field of the task, as it was.
\<close>

theorem updateTask_no_fields:
  assumes "findUnique_id s i = Some t"
    and "taskSchema_partial_parse body =
           Inr \<lparr>patch_title = None, patch_color = None, patch_completed = None\<rparr>"
  shows "updateTask s i body res =
           (s, sendSuccess res (task_json t) ''Task updated successfully'' 200) \<and>
         res_statusCode (snd (updateTask s i body res)) = 200 \<and>
         findUnique_id (fst (updateTask s i body res)) i = Some t"
  using assms
  by (simp add: updateTask_def updateTask_try_def prisma_update_def Let_def apply_patch_empty
      map_apply_patch_empty sendSuccess_status)

theorem updateTask_no_fields_witness:
  "findUnique_id
     \<lparr>tasks = [\<lparr>task_id = 1, task_title = ''learn prisma'', task_color = ''blue'',
                 task_completed = True\<rparr>], nextId = 2\<rparr> 1 =
     Some \<lparr>task_id = 1, task_title = ''learn prisma'', task_color = ''blue'',
            task_completed = True\<rparr> \<and>
   taskSchema_partial_parse (JObj [(''priority'', JNum 1)]) =
     Inr \<lparr>patch_title = None, patch_color = None, patch_completed = None\<rparr> \<and>
   updateTask
     \<lparr>tasks = [\<lparr>task_id = 1, task_title = ''learn prisma'', task_color = ''blue'',
                 task_completed = True\<rparr>], nextId = 2\<rparr> 1
     (JObj [(''priority'', JNum 1)]) fresh_response =
   (\<lparr>tasks = [\<lparr>task_id = 1, task_title = ''learn prisma'', task_color = ''blue'',
                 task_completed = True\<rparr>], nextId = 2\<rparr>,
    sendSuccess fresh_response
      (task_json \<lparr>task_id = 1, task_title = ''learn prisma'', task_color = ''blue'',
            task_completed = True\<rparr>)
      ''Task updated successfully'' 200)"
proof -
  have f: "findUnique_id
     \<lparr>tasks = [\<lparr>task_id = 1, task_title = ''learn prisma'', task_color = ''blue'',
                 task_completed = True\<rparr>], nextId = 2\<rparr> 1 =
     Some \<lparr>task_id = 1, task_title = ''learn prisma'', task_color = ''blue'',
            task_completed = True\<rparr>"
    by (simp add: findUnique_id_def)
  have p: "taskSchema_partial_parse (JObj [(''priority'', JNum 1)]) =
     Inr \<lparr>patch_title = None, patch_color = None, patch_completed = None\<rparr>"
    by (simp add: taskSchema_partial_parse_no_members)
  from updateTask_no_fields [OF f p, of fresh_response] f p
  show ?thesis by simp
qed

text \<open>
  C10. The claim: \<open>updateTask\<close> has no duplicate-title check of its own, and an update
  to a title that another task holds gets, not the 400 duplicate message, a 500
  response with the message \<open>Failed to update task\<close>. The store refuses the update
  with P2002 and the \<open>catch\<close> answers every error other than a \<open>ZodError\<close> through
  \<open>sendError\<close> with that message and the code 500 (\<open>updateTask_collision\<close>). What the
  client gets when task 2 is given the title of task 1: the store is unchanged, the
  envelope carries 500 and the message, and the status of the HTTP response is 200,
  since \<open>sendError\<close> does not set it.
\<close>

theorem updateTask_title_collision_status_200:
  "prisma_update
     \<lparr>tasks = [\<lparr>task_id = 1, task_title = ''learn prisma'', task_color = ''blue'',
                 task_completed = False\<rparr>,
               \<lparr>task_id = 2, task_title = ''write tests'', task_color = ''red'',
                 task_completed = False\<rparr>],
       nextId = 3\<rparr>
     2 \<lparr>patch_title = Some ''learn prisma'', patch_color = None, patch_completed = None\<rparr> =
     Inl P2002 \<and>
   updateTask
     \<lparr>tasks = [\<lparr>task_id = 1, task_title = ''learn prisma'', task_color = ''blue'',
                 task_completed = False\<rparr>,
               \<lparr>task_id = 2, task_title = ''write tests'', task_color = ''red'',
                 task_completed = False\<rparr>],
       nextId = 3\<rparr>
     2 (JObj [(''title'', JStr ''learn prisma'')]) fresh_response =
   (\<lparr>tasks = [\<lparr>task_id = 1, task_title = ''learn prisma'', task_color = ''blue'',
                 task_completed = False\<rparr>,
               \<lparr>task_id = 2, task_title = ''write tests'', task_color = ''red'',
                 task_completed = False\<rparr>],
       nextId = 3\<rparr>,
    \<lparr>res_statusCode = 200,
     res_body = Some (JObj [(''statusCode'', JNum 500), (''status'', JStr ''error''),
                            (''message'', JStr ''Failed to update task'')])\<rparr>) \<and>
   res_statusCode (snd (updateTask
     \<lparr>tasks = [\<lparr>task_id = 1, task_title = ''learn prisma'', task_color = ''blue'',
                 task_completed = False\<rparr>,
               \<lparr>task_id = 2, task_title = ''write tests'', task_color = ''red'',
                 task_completed = False\<rparr>],
       nextId = 3\<rparr>
     2 (JObj [(''title'', JStr ''learn prisma'')]) fresh_response)) \<noteq> 500"
  by code_simp

section \<open>Translating errors\<close>





end
